theory Spec2Isabelle
  imports Complex_Main
begin

section \<open>Shot accuracy analysis: an embedding of enhanced_accuracy_processor.py\<close>

text \<open>
  The module infers the intended target of a curling shot from the stone positions
  before and after it, and scores the thrown stone against that target. Coordinates,
  errors and confidences are Python floats in the source; they are read here as real
  numbers (no rounding, no NaN), so every statement below is about the exact arithmetic
  the source approximates. Strings stay strings, dictionaries with a fixed set of keys
  become records, and every place where Python or numpy could raise is a branch that
  returns an error value.
\<close>

subsection \<open>Constants\<close>


definition BUTTON_X :: real where
  "BUTTON_X = 0"

definition BUTTON_Y :: real where
  "BUTTON_Y = 0"

text \<open>A threshold is a float that may be \<^verbatim>\<open>float('inf')\<close>.\<close>

datatype threshold = Finite real | Infinity

fun le_threshold :: "real \<Rightarrow> threshold \<Rightarrow> bool" where
  "le_threshold e (Finite t) = (e \<le> t)"
| "le_threshold e Infinity = True"

text \<open>Python dictionaries iterate in insertion order: the tables are association lists.\<close>

definition DISTANCE_THRESHOLDS :: "(string \<times> threshold) list" where
  "DISTANCE_THRESHOLDS =
     [(''on_target'', Finite (20 / 100)),
      (''close'', Finite (50 / 100)),
      (''moderate'', Finite 1),
      (''large'', Infinity)]"

definition DIRECTION_THRESHOLDS :: "(string \<times> threshold) list" where
  "DIRECTION_THRESHOLDS =
     [(''on_line'', Finite 3),
      (''slight'', Finite 8),
      (''moderate'', Finite 15),
      (''large'', Infinity)]"

subsection \<open>Data\<close>

text \<open>
  A stone is a row \<^verbatim>\<open>{'color', 'x', 'y'}\<close>, an inferred target a dictionary
  \<^verbatim>\<open>{'x', 'y', 'confidence'}\<close>. Both are read through their \<^verbatim>\<open>'x'\<close> and
  \<^verbatim>\<open>'y'\<close> keys by the metric calculator, so both extend one record of coordinates.
\<close>

record position =
  pos_x :: real
  pos_y :: real

record stone = position +
  color :: string

record target = position +
  confidence :: real

record shot =
  shot_id :: int
  shot_type :: string
  shot_color :: string

record metrics =
  target_distance_error :: real
  path_direction_error :: real
  distance_category :: string
  direction_category :: string
  error_magnitude :: string

record accuracy = metrics +
  acc_shot_id :: int
  final_position_x :: real
  final_position_y :: real
  target_x :: real
  target_y :: real
  target_confidence :: real

datatype py_error = ValueError | IndexError

subsection \<open>Library functions the module calls\<close>

text \<open>\<^verbatim>\<open>xs[i]\<close> for a non-negative index: IndexError out of range.\<close>

definition list_index :: "'a list \<Rightarrow> nat \<Rightarrow> py_error + 'a" where
  "list_index xs i = (if i < length xs then Inr (xs ! i) else Inl IndexError)"

text \<open>
  \<^verbatim>\<open>np.argmin\<close>: the index of the first occurrence of the minimum; ValueError on an
  empty sequence.
\<close>

fun argmin_loop :: "real list \<Rightarrow> nat \<Rightarrow> real \<Rightarrow> nat \<Rightarrow> nat" where
  "argmin_loop [] i best best_idx = best_idx"
| "argmin_loop (d # ds) i best best_idx =
     (if d < best then argmin_loop ds (Suc i) d i
      else argmin_loop ds (Suc i) best best_idx)"

definition argmin :: "real list \<Rightarrow> py_error + nat" where
  "argmin ds = (case ds of [] \<Rightarrow> Inl ValueError | d # rest \<Rightarrow> Inr (argmin_loop rest 1 d 0))"

text \<open>
  \<^verbatim>\<open>np.arctan2(y, x)\<close>: the angle of the point \<open>(x, y)\<close> in \<open>(-\<pi>, \<pi>]\<close>, and 0 at the
  origin. \<^verbatim>\<open>np.degrees\<close> converts radians to degrees.
\<close>

definition arctan2 :: "real \<Rightarrow> real \<Rightarrow> real" where
  "arctan2 b a =
     (if 0 < a then arctan (b / a)
      else if a < 0 \<and> 0 \<le> b then arctan (b / a) + pi
      else if a < 0 \<and> b < 0 then arctan (b / a) - pi
      else if 0 < b then pi / 2
      else if b < 0 then - (pi / 2)
      else 0)"

definition degrees :: "real \<Rightarrow> real" where
  "degrees r = r * 180 / pi"

subsection \<open>Position snapshot differ\<close>

definition find_thrown_stone :: "shot \<Rightarrow> stone list \<Rightarrow> stone list \<Rightarrow> stone option" where
  "find_thrown_stone shot_data pre_shot_stones post_shot_stones =
     (let shooting_color = shot_color shot_data;
          pre_count = length (filter (\<lambda>s. color s = shooting_color) pre_shot_stones);
          post_count = length (filter (\<lambda>s. color s = shooting_color) post_shot_stones)
      in if post_count > pre_count then
           (let pre_positions =
                  set (map (\<lambda>s. (pos_x s, pos_y s))
                        (filter (\<lambda>s. color s = shooting_color) pre_shot_stones))
            in find (\<lambda>stone. color stone = shooting_color
                                \<and> (pos_x stone, pos_y stone) \<notin> pre_positions)
                 post_shot_stones)
         else None)"

fun removed_loop :: "(string \<times> real \<times> real) set \<Rightarrow> stone list \<Rightarrow> stone list \<Rightarrow> stone list" where
  "removed_loop post_positions [] removed = removed"
| "removed_loop post_positions (stone # rest) removed =
     (if (color stone, pos_x stone, pos_y stone) \<notin> post_positions
      then removed_loop post_positions rest (removed @ [stone])
      else removed_loop post_positions rest removed)"

definition find_removed_stones :: "stone list \<Rightarrow> stone list \<Rightarrow> stone list" where
  "find_removed_stones pre_shot_stones post_shot_stones =
     (let post_positions = set (map (\<lambda>s. (color s, pos_x s, pos_y s)) post_shot_stones)
      in removed_loop post_positions pre_shot_stones [])"

subsection \<open>Target inference engine\<close>



definition infer_takeout_target :: "shot \<Rightarrow> stone list \<Rightarrow> stone list \<Rightarrow> py_error + target" where
  "infer_takeout_target shot_data pre_shot_stones post_shot_stones =
     (let removed_stones = find_removed_stones pre_shot_stones post_shot_stones
      in if removed_stones \<noteq> [] then
           (case list_index removed_stones 0 of
              Inl e \<Rightarrow> Inl e
            | Inr target_stone \<Rightarrow>
                Inr \<lparr>pos_x = pos_x target_stone, pos_y = pos_y target_stone,
                     confidence = 9 / 10\<rparr>)
         else
           (case find_thrown_stone shot_data pre_shot_stones post_shot_stones of
              None \<Rightarrow> Inr \<lparr>pos_x = BUTTON_X, pos_y = BUTTON_Y, confidence = 3 / 10\<rparr>
            | Some thrown_stone \<Rightarrow>
                (let opponent_color =
                       (if shot_color shot_data = ''yellow'' then ''red'' else ''yellow'');
                     opponent_stones =
                       filter (\<lambda>s. color s = opponent_color) pre_shot_stones
                 in if opponent_stones \<noteq> [] then
                      (let distances =
                             map (\<lambda>s. sqrt ((pos_x s - pos_x thrown_stone) ^ 2
                                              + (pos_y s - pos_y thrown_stone) ^ 2))
                               opponent_stones
                       in case argmin distances of
                            Inl e \<Rightarrow> Inl e
                          | Inr closest_idx \<Rightarrow>
                              (case list_index opponent_stones closest_idx of
                                 Inl e \<Rightarrow> Inl e
                               | Inr closest_stone \<Rightarrow>
                                   Inr \<lparr>pos_x = pos_x closest_stone,
                                        pos_y = pos_y closest_stone,
                                        confidence = 7 / 10\<rparr>))
                    else Inr \<lparr>pos_x = BUTTON_X, pos_y = BUTTON_Y, confidence = 3 / 10\<rparr>)))"


definition infer_freeze_target :: "shot \<Rightarrow> stone list \<Rightarrow> stone list \<Rightarrow> py_error + target" where
  "infer_freeze_target shot_data pre_shot_stones post_shot_stones =
     (case find_thrown_stone shot_data pre_shot_stones post_shot_stones of
        None \<Rightarrow> Inr \<lparr>pos_x = BUTTON_X, pos_y = BUTTON_Y, confidence = 4 / 10\<rparr>
      | Some thrown_stone \<Rightarrow>
          (let other_stones =
                 filter (\<lambda>s. \<not> (pos_x s = pos_x thrown_stone \<and> pos_y s = pos_y thrown_stone))
                   post_shot_stones
           in if other_stones \<noteq> [] then
                (let distances =
                       map (\<lambda>s. sqrt ((pos_x s - pos_x thrown_stone) ^ 2
                                        + (pos_y s - pos_y thrown_stone) ^ 2))
                         other_stones
                 in case argmin distances of
                      Inl e \<Rightarrow> Inl e
                    | Inr closest_idx \<Rightarrow>
                        (case list_index other_stones closest_idx of
                           Inl e \<Rightarrow> Inl e
                         | Inr closest_stone \<Rightarrow>
                             (let target_x' = (pos_x thrown_stone + pos_x closest_stone) / 2;
                                  target_y' = (pos_y thrown_stone + pos_y closest_stone) / 2
                              in Inr \<lparr>pos_x = target_x', pos_y = target_y',
                                      confidence = 8 / 10\<rparr>)))
              else Inr \<lparr>pos_x = BUTTON_X, pos_y = BUTTON_Y, confidence = 4 / 10\<rparr>))"

definition infer_tap_target :: "shot \<Rightarrow> stone list \<Rightarrow> stone list \<Rightarrow> py_error + target" where
  "infer_tap_target shot_data pre_shot_stones post_shot_stones =
     infer_takeout_target shot_data pre_shot_stones post_shot_stones"

definition infer_peel_target :: "shot \<Rightarrow> stone list \<Rightarrow> stone list \<Rightarrow> py_error + target" where
  "infer_peel_target shot_data pre_shot_stones post_shot_stones =
     infer_takeout_target shot_data pre_shot_stones post_shot_stones"



subsection \<open>Accuracy metric calculator\<close>

text \<open>
  The categorising loop: the category starts at its default and the first table entry
  whose threshold the error does not exceed replaces it and ends the loop.
\<close>

fun categorize :: "string \<Rightarrow> real \<Rightarrow> (string \<times> threshold) list \<Rightarrow> string" where
  "categorize dflt err [] = dflt"
| "categorize dflt err ((category, thr) # rest) =
     (if le_threshold err thr then category else categorize dflt err rest)"

text \<open>
  The block of \<^verbatim>\<open>calculate_accuracy_metrics\<close> under its comment
  \<^verbatim>\<open># Overall error magnitude\<close>: an if/elif/else over the two category strings.
\<close>

definition overall_error_magnitude :: "string \<Rightarrow> string \<Rightarrow> string" where
  "overall_error_magnitude distance_category' direction_category' =
     (if distance_category' \<in> set [''on_target'']
         \<and> direction_category' \<in> set [''on_line'', ''slight'']
      then ''minor''
      else if distance_category' \<in> set [''on_target'', ''close'']
              \<and> direction_category' \<in> set [''on_line'', ''slight'', ''moderate'']
      then ''moderate''
      else ''major'')"

definition calculate_accuracy_metrics ::
  "int \<Rightarrow> 'a position_scheme \<Rightarrow> 'b position_scheme \<Rightarrow> metrics" where
  "calculate_accuracy_metrics sid tgt final_position =
     (let target_distance_error' =
            sqrt ((pos_x final_position - pos_x tgt) ^ 2
                  + (pos_y final_position - pos_y tgt) ^ 2);
          target_angle =
            (if pos_x tgt \<noteq> 0 \<or> pos_y tgt \<noteq> 0
             then arctan2 (pos_y tgt) (pos_x tgt) else 0);
          final_angle =
            (if pos_x final_position \<noteq> 0 \<or> pos_y final_position \<noteq> 0
             then arctan2 (pos_y final_position) (pos_x final_position) else 0);
          d0 = \<bar>degrees (target_angle - final_angle)\<bar>;
          path_direction_error' = (if d0 > 180 then 360 - d0 else d0);
          distance_category' = categorize ''large'' target_distance_error' DISTANCE_THRESHOLDS;
          direction_category' = categorize ''large'' path_direction_error' DIRECTION_THRESHOLDS;
          error_magnitude' = overall_error_magnitude distance_category' direction_category'
      in \<lparr>target_distance_error = target_distance_error',
          path_direction_error = path_direction_error',
          distance_category = distance_category',
          direction_category = direction_category',
          error_magnitude = error_magnitude'\<rparr>)"

subsection \<open>The per-shot pipeline\<close>


subsection \<open>Notions of the specification\<close>

text \<open>
  The candidates for the thrown stone: the stones of the post-snapshot with the acting
  side's color whose coordinate pair is not that of any stone of that color in the
  pre-snapshot, in the order of the post-snapshot.
\<close>

definition candidates :: "string \<Rightarrow> stone list \<Rightarrow> stone list \<Rightarrow> stone list" where
  "candidates side pre post =
     filter (\<lambda>s. color s = side
                  \<and> (pos_x s, pos_y s)
                      \<notin> set (map (\<lambda>p. (pos_x p, pos_y p)) (filter (\<lambda>p. color p = side) pre))) post"

text \<open>
  The angle of a point as seen from the button: \<^verbatim>\<open>atan2(y, x)\<close>, and 0 for the
  button itself.
\<close>

definition spec_angle :: "'a position_scheme \<Rightarrow> real" where
  "spec_angle p = (if pos_x p = 0 \<and> pos_y p = 0 then 0 else arctan2 (pos_y p) (pos_x p))"

section \<open>Properties\<close>

subsection \<open>The differ\<close>

lemma removed_loop_filter:
  "removed_loop P xs acc = acc @ filter (\<lambda>s. (color s, pos_x s, pos_y s) \<notin> P) xs"
  by (induction xs arbitrary: acc) simp_all

text \<open>
  Claim C7. \<^verbatim>\<open>_find_removed_stones\<close> returns exactly the stones of the pre-snapshot
  whose (color, x, y) triple is not the triple of any stone of the post-snapshot, in the
  order of the pre-snapshot. So the result is empty when the two snapshots are equal
  and when the pre-snapshot is empty, and it is the whole pre-snapshot when the
  post-snapshot is empty.
\<close>

theorem find_removed_stones_spec:
  "find_removed_stones pre post =
     filter (\<lambda>s. (color s, pos_x s, pos_y s)
                   \<notin> (\<lambda>p. (color p, pos_x p, pos_y p)) ` set post) pre
   \<and> find_removed_stones pre pre = []
   \<and> find_removed_stones [] post = []
   \<and> find_removed_stones pre [] = pre"
  by (simp add: find_removed_stones_def removed_loop_filter)

lemma find_eq_filter: "find P xs = (case filter P xs of [] \<Rightarrow> None | x # _ \<Rightarrow> Some x)"
  by (induction xs) simp_all

lemma find_thrown_stone_candidates:
  "find_thrown_stone sh pre post =
     (if length (filter (\<lambda>s. color s = shot_color sh) post)
           > length (filter (\<lambda>s. color s = shot_color sh) pre)
      then (case candidates (shot_color sh) pre post of [] \<Rightarrow> None | c # _ \<Rightarrow> Some c)
      else None)"
  by (simp add: find_thrown_stone_def candidates_def Let_def find_eq_filter)

lemma candidates_insert:
  assumes "color p = side"
    and "(pos_x p, pos_y p) \<notin> set (map (\<lambda>q. (pos_x q, pos_y q)) (filter (\<lambda>q. color q = side) (xs @ ys)))"
  shows "candidates side (xs @ ys) (xs @ p # ys) = [p]"
proof -
  have "filter (\<lambda>s. color s = side
          \<and> (pos_x s, pos_y s) \<notin> set (map (\<lambda>q. (pos_x q, pos_y q)) (filter (\<lambda>q. color q = side) (xs @ ys)))) zs = []"
    if "set zs \<subseteq> set (xs @ ys)" for zs
    using that by (auto simp: filter_empty_conv)
  from this [of xs] this [of ys] assms show ?thesis
    by (simp add: candidates_def)
qed

text \<open>
  Claim C2, as amended. When the acting side has more stones in the post-snapshot than
  in the pre-snapshot, \<^verbatim>\<open>_find_thrown_stone\<close> returns the first candidate in the
  order of the post-snapshot, and nothing when there is no candidate; when the count is
  equal or smaller it returns nothing. When the post-snapshot is the pre-snapshot with
  one stone of the acting side inserted anywhere, and the coordinate pair of that stone
  is not already that of a stone of the acting side in the pre-snapshot, the inserted
  stone is returned.
\<close>

theorem find_thrown_stone_spec:
  "find_thrown_stone sh pre post =
     (if length (filter (\<lambda>s. color s = shot_color sh) pre)
           < length (filter (\<lambda>s. color s = shot_color sh) post)
      then (case candidates (shot_color sh) pre post of [] \<Rightarrow> None | c # cs \<Rightarrow> Some c)
      else None)
   \<and> (color p = shot_color sh
        \<and> (pos_x p, pos_y p)
            \<notin> set (map (\<lambda>q. (pos_x q, pos_y q)) (filter (\<lambda>q. color q = shot_color sh) (xs @ ys)))
      \<longrightarrow> find_thrown_stone sh (xs @ ys) (xs @ p # ys) = Some p)"
proof (intro conjI impI)
  show "find_thrown_stone sh pre post =
     (if length (filter (\<lambda>s. color s = shot_color sh) pre)
           < length (filter (\<lambda>s. color s = shot_color sh) post)
      then (case candidates (shot_color sh) pre post of [] \<Rightarrow> None | c # cs \<Rightarrow> Some c)
      else None)"
    by (simp add: find_thrown_stone_candidates)
next
  assume h: "color p = shot_color sh
        \<and> (pos_x p, pos_y p)
            \<notin> set (map (\<lambda>q. (pos_x q, pos_y q)) (filter (\<lambda>q. color q = shot_color sh) (xs @ ys)))"
  then have "candidates (shot_color sh) (xs @ ys) (xs @ p # ys) = [p]"
    using candidates_insert [of p "shot_color sh" xs ys] by blast
  with h show "find_thrown_stone sh (xs @ ys) (xs @ p # ys) = Some p"
    by (simp add: find_thrown_stone_candidates)
qed

theorem find_thrown_stone_spec_witness:
  "color \<lparr>pos_x = 0, pos_y = 0, color = ''yellow''\<rparr>
     = shot_color \<lparr>shot_id = 1, shot_type = ''Draw'', shot_color = ''yellow''\<rparr>
   \<and> (pos_x \<lparr>pos_x = 0, pos_y = 0, color = ''yellow''\<rparr>, pos_y \<lparr>pos_x = 0, pos_y = 0, color = ''yellow''\<rparr>)
       \<notin> set (map (\<lambda>q. (pos_x q, pos_y q))
                (filter (\<lambda>q. color q = shot_color \<lparr>shot_id = 1, shot_type = ''Draw'', shot_color = ''yellow''\<rparr>)
                   ([\<lparr>pos_x = 0, pos_y = 0, color = ''red''\<rparr>] @ [\<lparr>pos_x = 2, pos_y = 2, color = ''yellow''\<rparr>])))
   \<and> find_thrown_stone \<lparr>shot_id = 1, shot_type = ''Draw'', shot_color = ''yellow''\<rparr>
        ([\<lparr>pos_x = 0, pos_y = 0, color = ''red''\<rparr>] @ [\<lparr>pos_x = 2, pos_y = 2, color = ''yellow''\<rparr>])
        ([\<lparr>pos_x = 0, pos_y = 0, color = ''red''\<rparr>] @ \<lparr>pos_x = 0, pos_y = 0, color = ''yellow''\<rparr>
           # [\<lparr>pos_x = 2, pos_y = 2, color = ''yellow''\<rparr>])
      = Some \<lparr>pos_x = 0, pos_y = 0, color = ''yellow''\<rparr>"
  using find_thrown_stone_spec [of "\<lparr>shot_id = 1, shot_type = ''Draw'', shot_color = ''yellow''\<rparr>"
      "[]" "[]" "\<lparr>pos_x = 0, pos_y = 0, color = ''yellow''\<rparr>"
      "[\<lparr>pos_x = 0, pos_y = 0, color = ''red''\<rparr>]" "[\<lparr>pos_x = 2, pos_y = 2, color = ''yellow''\<rparr>]"]
  by simp

text \<open>
  Without the condition on the coordinates the insertion property fails: a stone
  inserted at the coordinates of a stone of the same color is not found.
\<close>

theorem find_thrown_stone_insertion_counterexample:
  "color \<lparr>pos_x = 0, pos_y = 0, color = ''yellow''\<rparr>
     = shot_color \<lparr>shot_id = 1, shot_type = ''Draw'', shot_color = ''yellow''\<rparr>
   \<and> find_thrown_stone \<lparr>shot_id = 1, shot_type = ''Draw'', shot_color = ''yellow''\<rparr>
        ([\<lparr>pos_x = 0, pos_y = 0, color = ''yellow''\<rparr>] @ [])
        ([\<lparr>pos_x = 0, pos_y = 0, color = ''yellow''\<rparr>] @ \<lparr>pos_x = 0, pos_y = 0, color = ''yellow''\<rparr> # [])
      \<noteq> Some \<lparr>pos_x = 0, pos_y = 0, color = ''yellow''\<rparr>"
  by (simp add: find_thrown_stone_def)

subsection \<open>Library functions\<close>

lemma argmin_loop_spec:
  "(argmin_loop ds i best bi = bi \<and> (\<forall>d \<in> set ds. best \<le> d))
   \<or> (i \<le> argmin_loop ds i best bi \<and> argmin_loop ds i best bi < i + length ds
       \<and> ds ! (argmin_loop ds i best bi - i) < best
       \<and> (\<forall>d \<in> set ds. ds ! (argmin_loop ds i best bi - i) \<le> d))"
proof (induction ds arbitrary: i best bi)
  case Nil
  then show ?case by simp
next
  case (Cons d ds)
  show ?case
  proof (cases "d < best")
    case True
    from Cons.IH [of "Suc i" d i] show ?thesis
    proof
      assume h: "argmin_loop ds (Suc i) d i = i \<and> (\<forall>e \<in> set ds. d \<le> e)"
      with True show ?thesis by simp
    next
      assume h: "Suc i \<le> argmin_loop ds (Suc i) d i
         \<and> argmin_loop ds (Suc i) d i < Suc i + length ds
         \<and> ds ! (argmin_loop ds (Suc i) d i - Suc i) < d
         \<and> (\<forall>e \<in> set ds. ds ! (argmin_loop ds (Suc i) d i - Suc i) \<le> e)"
      define r where "r = argmin_loop ds (Suc i) d i"
      from h have r: "Suc i \<le> r" "r < Suc i + length ds" "ds ! (r - Suc i) < d"
        "\<forall>e \<in> set ds. ds ! (r - Suc i) \<le> e" by (simp_all add: r_def)
      from r(1) have nth: "(d # ds) ! (r - i) = ds ! (r - Suc i)"
        by (simp add: Suc_diff_le)
      have "argmin_loop (d # ds) i best bi = r" using True by (simp add: r_def)
      moreover have "i \<le> r" "r < i + length (d # ds)" using r by simp_all
      moreover have "(d # ds) ! (r - i) < best" using nth r(3) True by simp
      moreover have "\<forall>e \<in> set (d # ds). (d # ds) ! (r - i) \<le> e" using nth r(3,4) by auto
      ultimately show ?thesis by simp
    qed
  next
    case False
    from Cons.IH [of "Suc i" best bi] show ?thesis
    proof
      assume h: "argmin_loop ds (Suc i) best bi = bi \<and> (\<forall>e \<in> set ds. best \<le> e)"
      with False show ?thesis by auto
    next
      assume h: "Suc i \<le> argmin_loop ds (Suc i) best bi
         \<and> argmin_loop ds (Suc i) best bi < Suc i + length ds
         \<and> ds ! (argmin_loop ds (Suc i) best bi - Suc i) < best
         \<and> (\<forall>e \<in> set ds. ds ! (argmin_loop ds (Suc i) best bi - Suc i) \<le> e)"
      define r where "r = argmin_loop ds (Suc i) best bi"
      from h have r: "Suc i \<le> r" "r < Suc i + length ds" "ds ! (r - Suc i) < best"
        "\<forall>e \<in> set ds. ds ! (r - Suc i) \<le> e" by (simp_all add: r_def)
      from r(1) have nth: "(d # ds) ! (r - i) = ds ! (r - Suc i)"
        by (simp add: Suc_diff_le)
      have "argmin_loop (d # ds) i best bi = r" using False by (simp add: r_def)
      moreover have "i \<le> r" "r < i + length (d # ds)" using r by simp_all
      moreover have "(d # ds) ! (r - i) < best" using nth r(3) by simp
      moreover have "\<forall>e \<in> set (d # ds). (d # ds) ! (r - i) \<le> e"
        using nth r(3,4) False by auto
      ultimately show ?thesis by simp
    qed
  qed
qed

lemma argmin_nonempty:
  assumes "ds \<noteq> []"
  shows "\<exists>i. argmin ds = Inr i \<and> i < length ds \<and> (\<forall>d \<in> set ds. ds ! i \<le> d)"
proof -
  from assms obtain d rest where ds: "ds = d # rest" by (cases ds) auto
  define r where "r = argmin_loop rest 1 d 0"
  have a: "argmin ds = Inr r" by (simp add: argmin_def ds r_def)
  from argmin_loop_spec [of rest 1 d 0]
  have "r < length ds \<and> (\<forall>e \<in> set ds. ds ! r \<le> e)"
  proof
    assume "argmin_loop rest 1 d 0 = 0 \<and> (\<forall>e \<in> set rest. d \<le> e)"
    then show ?thesis by (simp add: r_def ds)
  next
    assume h: "1 \<le> argmin_loop rest 1 d 0 \<and> argmin_loop rest 1 d 0 < 1 + length rest
       \<and> rest ! (argmin_loop rest 1 d 0 - 1) < d
       \<and> (\<forall>e \<in> set rest. rest ! (argmin_loop rest 1 d 0 - 1) \<le> e)"
    then have r: "1 \<le> r" "r < 1 + length rest" "rest ! (r - 1) < d"
      "\<forall>e \<in> set rest. rest ! (r - 1) \<le> e" by (simp_all add: r_def)
    from r(1) have "ds ! r = rest ! (r - 1)" by (cases r) (simp_all add: ds)
    with r show ?thesis by (auto simp: ds)
  qed
  with a show ?thesis by blast
qed

lemma nearest_total:
  assumes "ss \<noteq> []"
  shows "\<exists>i c. argmin (map g ss) = Inr i \<and> list_index ss i = Inr c \<and> c \<in> set ss
           \<and> (\<forall>s \<in> set ss. g c \<le> g s)"
proof -
  from assms have "map g ss \<noteq> []" by simp
  from argmin_nonempty [OF this] obtain i where
    i: "argmin (map g ss) = Inr i" "i < length ss" "\<forall>d \<in> set (map g ss). map g ss ! i \<le> d"
    by auto
  from i(2) have "list_index ss i = Inr (ss ! i)" "ss ! i \<in> set ss"
    by (simp_all add: list_index_def)
  moreover from i(2,3) have "\<forall>s \<in> set ss. g (ss ! i) \<le> g s" by simp
  ultimately show ?thesis using i(1) by blast
qed

subsection \<open>The inference heuristics\<close>




lemma takeout_removed:
  assumes "find_removed_stones pre post \<noteq> []"
  shows "infer_takeout_target sh pre post =
           Inr \<lparr>pos_x = pos_x (hd (find_removed_stones pre post)),
                pos_y = pos_y (hd (find_removed_stones pre post)), confidence = 9 / 10\<rparr>"
  using assms by (simp add: infer_takeout_target_def Let_def list_index_def hd_conv_nth)

lemma takeout_nearest:
  assumes "find_removed_stones pre post = []"
    and "find_thrown_stone sh pre post = Some t"
    and "filter (\<lambda>s. color s = (if shot_color sh = ''yellow'' then ''red'' else ''yellow'')) pre \<noteq> []"
  shows "\<exists>c \<in> set (filter (\<lambda>s. color s = (if shot_color sh = ''yellow'' then ''red'' else ''yellow'')) pre).
           infer_takeout_target sh pre post = Inr \<lparr>pos_x = pos_x c, pos_y = pos_y c, confidence = 7 / 10\<rparr>
           \<and> (\<forall>s \<in> set (filter (\<lambda>s. color s = (if shot_color sh = ''yellow'' then ''red'' else ''yellow'')) pre).
                 sqrt ((pos_x c - pos_x t) ^ 2 + (pos_y c - pos_y t) ^ 2)
                 \<le> sqrt ((pos_x s - pos_x t) ^ 2 + (pos_y s - pos_y t) ^ 2))"
proof -
  define opp where "opp = filter (\<lambda>s. color s = (if shot_color sh = ''yellow'' then ''red'' else ''yellow'')) pre"
  define g where "g = (\<lambda>s::stone. sqrt ((pos_x s - pos_x t) ^ 2 + (pos_y s - pos_y t) ^ 2))"
  from assms(3) have ne: "opp \<noteq> []" by (simp add: opp_def)
  from nearest_total [OF ne, of g] obtain i c where
    ic: "argmin (map g opp) = Inr i" "list_index opp i = Inr c" "c \<in> set opp"
        "\<forall>s \<in> set opp. g c \<le> g s" by blast
  have "infer_takeout_target sh pre post = Inr \<lparr>pos_x = pos_x c, pos_y = pos_y c, confidence = 7 / 10\<rparr>"
    using assms(1,2) ne ic(1,2)
    by (simp add: infer_takeout_target_def Let_def opp_def [symmetric] g_def [symmetric])
  with ic(3,4) show ?thesis unfolding opp_def g_def by blast
qed

lemma takeout_fallback:
  assumes "find_removed_stones pre post = []"
    and "find_thrown_stone sh pre post = None
         \<or> filter (\<lambda>s. color s = (if shot_color sh = ''yellow'' then ''red'' else ''yellow'')) pre = []"
  shows "infer_takeout_target sh pre post = Inr \<lparr>pos_x = 0, pos_y = 0, confidence = 3 / 10\<rparr>"
  using assms
  by (auto simp add: infer_takeout_target_def Let_def BUTTON_X_def BUTTON_Y_def split: option.split)



lemma freeze_fallback:
  assumes "find_thrown_stone sh pre post = None
     \<or> (\<exists>t. find_thrown_stone sh pre post = Some t
            \<and> filter (\<lambda>s. \<not> (pos_x s = pos_x t \<and> pos_y s = pos_y t)) post = [])"
  shows "infer_freeze_target sh pre post = Inr \<lparr>pos_x = 0, pos_y = 0, confidence = 4 / 10\<rparr>"
  using assms
  by (auto simp add: infer_freeze_target_def Let_def BUTTON_X_def BUTTON_Y_def)



text \<open>
  Claim C6. For a Take-out: when some stone was removed, the target is the first removed
  stone at confidence 0.9. When none was removed, a thrown stone is found and the
  opposing color (red for a yellow shot, yellow otherwise) has stones in the
  pre-snapshot, the target is one of those stones, at least as near to the thrown stone
  as every other, at confidence 0.7. When none was removed and no thrown stone is found
  or the opposing color has no stone, the target is the button at confidence 0.3. Tap
  and Peel return what Take-out returns. For the snapshots [(red, 0, 0)] and
  [(yellow, 0.3, 0.1)] the target is (0, 0) at confidence 0.9.
\<close>

theorem takeout_target_spec:
  "(find_removed_stones pre post \<noteq> [] \<longrightarrow>
      infer_takeout_target sh pre post =
        Inr \<lparr>pos_x = pos_x (hd (find_removed_stones pre post)),
             pos_y = pos_y (hd (find_removed_stones pre post)), confidence = 9 / 10\<rparr>)
   \<and> (find_removed_stones pre post = [] \<and> find_thrown_stone sh pre post = Some t
        \<and> filter (\<lambda>s. color s = (if shot_color sh = ''yellow'' then ''red'' else ''yellow'')) pre \<noteq> []
      \<longrightarrow> (\<exists>c \<in> set (filter (\<lambda>s. color s = (if shot_color sh = ''yellow'' then ''red'' else ''yellow'')) pre).
             infer_takeout_target sh pre post =
               Inr \<lparr>pos_x = pos_x c, pos_y = pos_y c, confidence = 7 / 10\<rparr>
             \<and> (\<forall>s \<in> set (filter (\<lambda>s. color s = (if shot_color sh = ''yellow'' then ''red'' else ''yellow'')) pre).
                   sqrt ((pos_x c - pos_x t) ^ 2 + (pos_y c - pos_y t) ^ 2)
                   \<le> sqrt ((pos_x s - pos_x t) ^ 2 + (pos_y s - pos_y t) ^ 2))))
   \<and> (find_removed_stones pre post = []
        \<and> (find_thrown_stone sh pre post = None
            \<or> filter (\<lambda>s. color s = (if shot_color sh = ''yellow'' then ''red'' else ''yellow'')) pre = [])
      \<longrightarrow> infer_takeout_target sh pre post = Inr \<lparr>pos_x = 0, pos_y = 0, confidence = 3 / 10\<rparr>)
   \<and> infer_tap_target sh pre post = infer_takeout_target sh pre post
   \<and> infer_peel_target sh pre post = infer_takeout_target sh pre post
   \<and> infer_takeout_target sh [\<lparr>pos_x = 0, pos_y = 0, color = ''red''\<rparr>]
        [\<lparr>pos_x = 3 / 10, pos_y = 1 / 10, color = ''yellow''\<rparr>]
      = Inr \<lparr>pos_x = 0, pos_y = 0, confidence = 9 / 10\<rparr>"
proof (intro conjI impI)
  assume "find_removed_stones pre post \<noteq> []"
  then show "infer_takeout_target sh pre post =
        Inr \<lparr>pos_x = pos_x (hd (find_removed_stones pre post)),
             pos_y = pos_y (hd (find_removed_stones pre post)), confidence = 9 / 10\<rparr>"
    by (rule takeout_removed)
next
  assume "find_removed_stones pre post = [] \<and> find_thrown_stone sh pre post = Some t
        \<and> filter (\<lambda>s. color s = (if shot_color sh = ''yellow'' then ''red'' else ''yellow'')) pre \<noteq> []"
  then show "\<exists>c \<in> set (filter (\<lambda>s. color s = (if shot_color sh = ''yellow'' then ''red'' else ''yellow'')) pre).
             infer_takeout_target sh pre post =
               Inr \<lparr>pos_x = pos_x c, pos_y = pos_y c, confidence = 7 / 10\<rparr>
             \<and> (\<forall>s \<in> set (filter (\<lambda>s. color s = (if shot_color sh = ''yellow'' then ''red'' else ''yellow'')) pre).
                   sqrt ((pos_x c - pos_x t) ^ 2 + (pos_y c - pos_y t) ^ 2)
                   \<le> sqrt ((pos_x s - pos_x t) ^ 2 + (pos_y s - pos_y t) ^ 2))"
    using takeout_nearest [of pre post sh t] by blast
next
  assume "find_removed_stones pre post = []
        \<and> (find_thrown_stone sh pre post = None
            \<or> filter (\<lambda>s. color s = (if shot_color sh = ''yellow'' then ''red'' else ''yellow'')) pre = [])"
  then show "infer_takeout_target sh pre post = Inr \<lparr>pos_x = 0, pos_y = 0, confidence = 3 / 10\<rparr>"
    using takeout_fallback [of pre post sh] by blast
next
  show "infer_tap_target sh pre post = infer_takeout_target sh pre post"
    by (simp add: infer_tap_target_def)
next
  show "infer_peel_target sh pre post = infer_takeout_target sh pre post"
    by (simp add: infer_peel_target_def)
next
  show "infer_takeout_target sh [\<lparr>pos_x = 0, pos_y = 0, color = ''red''\<rparr>]
        [\<lparr>pos_x = 3 / 10, pos_y = 1 / 10, color = ''yellow''\<rparr>]
      = Inr \<lparr>pos_x = 0, pos_y = 0, confidence = 9 / 10\<rparr>"
    by (simp add: infer_takeout_target_def find_removed_stones_def list_index_def)
qed

theorem takeout_target_spec_witness:
  "find_removed_stones [\<lparr>pos_x = 0, pos_y = 0, color = ''red''\<rparr>]
       [\<lparr>pos_x = 3 / 10, pos_y = 1 / 10, color = ''yellow''\<rparr>]
     = [\<lparr>pos_x = 0, pos_y = 0, color = ''red''\<rparr>]
   \<and> infer_takeout_target \<lparr>shot_id = 1, shot_type = ''Take-out'', shot_color = ''yellow''\<rparr>
       [\<lparr>pos_x = 0, pos_y = 0, color = ''red''\<rparr>]
       [\<lparr>pos_x = 3 / 10, pos_y = 1 / 10, color = ''yellow''\<rparr>]
     = Inr \<lparr>pos_x = 0, pos_y = 0, confidence = 9 / 10\<rparr>
   \<and> find_removed_stones
       [\<lparr>pos_x = 2, pos_y = 0, color = ''red''\<rparr>, \<lparr>pos_x = 1, pos_y = 0, color = ''red''\<rparr>]
       [\<lparr>pos_x = 2, pos_y = 0, color = ''red''\<rparr>, \<lparr>pos_x = 1, pos_y = 0, color = ''red''\<rparr>,
        \<lparr>pos_x = 0, pos_y = 0, color = ''yellow''\<rparr>] = []
   \<and> find_thrown_stone \<lparr>shot_id = 2, shot_type = ''Take-out'', shot_color = ''yellow''\<rparr>
       [\<lparr>pos_x = 2, pos_y = 0, color = ''red''\<rparr>, \<lparr>pos_x = 1, pos_y = 0, color = ''red''\<rparr>]
       [\<lparr>pos_x = 2, pos_y = 0, color = ''red''\<rparr>, \<lparr>pos_x = 1, pos_y = 0, color = ''red''\<rparr>,
        \<lparr>pos_x = 0, pos_y = 0, color = ''yellow''\<rparr>]
     = Some \<lparr>pos_x = 0, pos_y = 0, color = ''yellow''\<rparr>
   \<and> infer_takeout_target \<lparr>shot_id = 2, shot_type = ''Take-out'', shot_color = ''yellow''\<rparr>
       [\<lparr>pos_x = 2, pos_y = 0, color = ''red''\<rparr>, \<lparr>pos_x = 1, pos_y = 0, color = ''red''\<rparr>]
       [\<lparr>pos_x = 2, pos_y = 0, color = ''red''\<rparr>, \<lparr>pos_x = 1, pos_y = 0, color = ''red''\<rparr>,
        \<lparr>pos_x = 0, pos_y = 0, color = ''yellow''\<rparr>]
     = Inr \<lparr>pos_x = 1, pos_y = 0, confidence = 7 / 10\<rparr>
   \<and> find_removed_stones [] [\<lparr>pos_x = 0, pos_y = 0, color = ''yellow''\<rparr>] = []
   \<and> filter (\<lambda>s. color s = ''red'') ([] :: stone list) = []
   \<and> infer_takeout_target \<lparr>shot_id = 3, shot_type = ''Take-out'', shot_color = ''yellow''\<rparr>
       [] [\<lparr>pos_x = 0, pos_y = 0, color = ''yellow''\<rparr>]
     = Inr \<lparr>pos_x = 0, pos_y = 0, confidence = 3 / 10\<rparr>"
  using
    takeout_target_spec [of "[\<lparr>pos_x = 0, pos_y = 0, color = ''red''\<rparr>]"
       "[\<lparr>pos_x = 3 / 10, pos_y = 1 / 10, color = ''yellow''\<rparr>]"
       "\<lparr>shot_id = 1, shot_type = ''Take-out'', shot_color = ''yellow''\<rparr>"]
    takeout_target_spec [of
       "[\<lparr>pos_x = 2, pos_y = 0, color = ''red''\<rparr>, \<lparr>pos_x = 1, pos_y = 0, color = ''red''\<rparr>]"
       "[\<lparr>pos_x = 2, pos_y = 0, color = ''red''\<rparr>, \<lparr>pos_x = 1, pos_y = 0, color = ''red''\<rparr>,
         \<lparr>pos_x = 0, pos_y = 0, color = ''yellow''\<rparr>]"
       "\<lparr>shot_id = 2, shot_type = ''Take-out'', shot_color = ''yellow''\<rparr>"
       "\<lparr>pos_x = 0, pos_y = 0, color = ''yellow''\<rparr>"]
    takeout_target_spec [of "[]" "[\<lparr>pos_x = 0, pos_y = 0, color = ''yellow''\<rparr>]"
       "\<lparr>shot_id = 3, shot_type = ''Take-out'', shot_color = ''yellow''\<rparr>"]
  by (simp add: find_removed_stones_def find_thrown_stone_def)



text \<open>
  Claim C10. For a Freeze whose thrown stone is found while every stone of the
  post-snapshot has the coordinates of the thrown stone, no midpoint is computed: the
  target is the button at confidence 0.4, as it is when no thrown stone is found.
\<close>

theorem freeze_without_other_stone:
  "(find_thrown_stone sh pre post = Some t
      \<and> (\<forall>s \<in> set post. pos_x s = pos_x t \<and> pos_y s = pos_y t)
    \<longrightarrow> infer_freeze_target sh pre post = Inr \<lparr>pos_x = 0, pos_y = 0, confidence = 4 / 10\<rparr>)
   \<and> (find_thrown_stone sh pre post = None
    \<longrightarrow> infer_freeze_target sh pre post = Inr \<lparr>pos_x = 0, pos_y = 0, confidence = 4 / 10\<rparr>)"
proof (intro conjI impI)
  assume h: "find_thrown_stone sh pre post = Some t
      \<and> (\<forall>s \<in> set post. pos_x s = pos_x t \<and> pos_y s = pos_y t)"
  then have "filter (\<lambda>s. \<not> (pos_x s = pos_x t \<and> pos_y s = pos_y t)) post = []"
    by (simp add: filter_empty_conv)
  with h show "infer_freeze_target sh pre post = Inr \<lparr>pos_x = 0, pos_y = 0, confidence = 4 / 10\<rparr>"
    using freeze_fallback [of sh pre post] by blast
next
  assume "find_thrown_stone sh pre post = None"
  then show "infer_freeze_target sh pre post = Inr \<lparr>pos_x = 0, pos_y = 0, confidence = 4 / 10\<rparr>"
    using freeze_fallback [of sh pre post] by blast
qed

theorem freeze_without_other_stone_witness:
  "find_thrown_stone \<lparr>shot_id = 4, shot_type = ''Freeze'', shot_color = ''yellow''\<rparr> []
       [\<lparr>pos_x = 1, pos_y = 1, color = ''yellow''\<rparr>]
     = Some \<lparr>pos_x = 1, pos_y = 1, color = ''yellow''\<rparr>
   \<and> infer_freeze_target \<lparr>shot_id = 4, shot_type = ''Freeze'', shot_color = ''yellow''\<rparr> []
       [\<lparr>pos_x = 1, pos_y = 1, color = ''yellow''\<rparr>]
     = Inr \<lparr>pos_x = 0, pos_y = 0, confidence = 4 / 10\<rparr>
   \<and> find_thrown_stone \<lparr>shot_id = 5, shot_type = ''Freeze'', shot_color = ''yellow''\<rparr> []
       [\<lparr>pos_x = 1, pos_y = 1, color = ''red''\<rparr>] = None
   \<and> infer_freeze_target \<lparr>shot_id = 5, shot_type = ''Freeze'', shot_color = ''yellow''\<rparr> []
       [\<lparr>pos_x = 1, pos_y = 1, color = ''red''\<rparr>]
     = Inr \<lparr>pos_x = 0, pos_y = 0, confidence = 4 / 10\<rparr>"
  using
    freeze_without_other_stone [of "\<lparr>shot_id = 4, shot_type = ''Freeze'', shot_color = ''yellow''\<rparr>"
      "[]" "[\<lparr>pos_x = 1, pos_y = 1, color = ''yellow''\<rparr>]"
      "\<lparr>pos_x = 1, pos_y = 1, color = ''yellow''\<rparr>"]
    freeze_without_other_stone [of "\<lparr>shot_id = 5, shot_type = ''Freeze'', shot_color = ''yellow''\<rparr>"
      "[]" "[\<lparr>pos_x = 1, pos_y = 1, color = ''red''\<rparr>]"]
  by (simp add: find_thrown_stone_def)

subsection \<open>The metric calculator\<close>

text \<open>
  Claim C9. The metrics do not depend on the shot identifier: two calls with the same
  target and final position return the same record (all five fields), whatever the two
  identifiers are.
\<close>

theorem metrics_ignore_shot_id:
  "calculate_accuracy_metrics sid1 t f = calculate_accuracy_metrics sid2 t f"
  by (simp add: calculate_accuracy_metrics_def)

theorem metrics_ignore_shot_id_witness:
  "calculate_accuracy_metrics 1 \<lparr>pos_x = 0, pos_y = 0, confidence = 3 / 10\<rparr>
       \<lparr>pos_x = 15 / 100, pos_y = 0, color = ''red''\<rparr>
     = calculate_accuracy_metrics 2 \<lparr>pos_x = 0, pos_y = 0, confidence = 3 / 10\<rparr>
         \<lparr>pos_x = 15 / 100, pos_y = 0, color = ''red''\<rparr>
   \<and> calculate_accuracy_metrics 2 \<lparr>pos_x = 0, pos_y = 0, confidence = 3 / 10\<rparr>
         \<lparr>pos_x = 15 / 100, pos_y = 0, color = ''red''\<rparr>
     = \<lparr>target_distance_error = 15 / 100, path_direction_error = 0,
        distance_category = ''on_target'', direction_category = ''on_line'',
        error_magnitude = ''minor''\<rparr>"
  using metrics_ignore_shot_id [of 1 "\<lparr>pos_x = 0, pos_y = 0, confidence = 3 / 10\<rparr>"
      "\<lparr>pos_x = 15 / 100, pos_y = 0, color = ''red''\<rparr>" 2]
  by (simp add: calculate_accuracy_metrics_def Let_def arctan2_def degrees_def
        DISTANCE_THRESHOLDS_def DIRECTION_THRESHOLDS_def overall_error_magnitude_def)

text \<open>
  Claim C3. The error magnitude of a metrics record is the value of the if/elif/else
  rule at the record's two category strings and depends on nothing else. Over the four
  distance categories (rows) and the four direction categories (columns) the rule gives:
  minor for on_target with on_line or slight; moderate for on_target with moderate and
  for close with on_line, slight or moderate; major for the nine other pairs.
\<close>

theorem composite_table:
  "error_magnitude (calculate_accuracy_metrics sid t f) =
     overall_error_magnitude (distance_category (calculate_accuracy_metrics sid t f))
       (direction_category (calculate_accuracy_metrics sid t f))
   \<and> map (\<lambda>dc. map (overall_error_magnitude dc)
                  [''on_line'', ''slight'', ''moderate'', ''large''])
        [''on_target'', ''close'', ''moderate'', ''large'']
     = [[''minor'', ''minor'', ''moderate'', ''major''],
        [''moderate'', ''moderate'', ''moderate'', ''major''],
        [''major'', ''major'', ''major'', ''major''],
        [''major'', ''major'', ''major'', ''major'']]"
  by (simp add: calculate_accuracy_metrics_def Let_def overall_error_magnitude_def)

theorem composite_table_witness:
  "error_magnitude (calculate_accuracy_metrics 1 \<lparr>pos_x = 0, pos_y = 0, confidence = 3 / 10\<rparr>
        \<lparr>pos_x = 15 / 100, pos_y = 0, color = ''red''\<rparr>) = ''minor''
   \<and> error_magnitude (calculate_accuracy_metrics 2 \<lparr>pos_x = 0, pos_y = 0, confidence = 3 / 10\<rparr>
        \<lparr>pos_x = 12 / 10, pos_y = 0, color = ''red''\<rparr>) = ''major''"
  using composite_table [of 1 "\<lparr>pos_x = 0, pos_y = 0, confidence = 3 / 10\<rparr>"
        "\<lparr>pos_x = 15 / 100, pos_y = 0, color = ''red''\<rparr>"]
     composite_table [of 2 "\<lparr>pos_x = 0, pos_y = 0, confidence = 3 / 10\<rparr>"
        "\<lparr>pos_x = 12 / 10, pos_y = 0, color = ''red''\<rparr>"]
  by (simp add: calculate_accuracy_metrics_def Let_def arctan2_def degrees_def
        DISTANCE_THRESHOLDS_def DIRECTION_THRESHOLDS_def overall_error_magnitude_def)

lemma arctan2_bounds: "- pi < arctan2 b a \<and> arctan2 b a \<le> pi"
proof -
  have l: "- (pi / 2) < arctan (b / a)" and u: "arctan (b / a) < pi / 2"
    by (rule arctan_lbound, rule arctan_ubound)
  have p: "0 < pi" by simp
  consider "0 < a" | "a < 0" "0 \<le> b" | "a < 0" "b < 0" | "a = 0" "0 < b" | "a = 0" "b < 0"
    | "a = 0" "b = 0" by linarith
  then show ?thesis
  proof cases
    case 1
    then have "arctan2 b a = arctan (b / a)" by (simp add: arctan2_def)
    with l u p show ?thesis by linarith
  next
    case 2
    then have "b / a \<le> 0" by (simp add: divide_nonneg_neg)
    then have "arctan (b / a) \<le> 0" by (simp only: arctan_le_zero_iff)
    moreover from 2 have "arctan2 b a = arctan (b / a) + pi" by (simp add: arctan2_def)
    ultimately show ?thesis using l p by linarith
  next
    case 3
    then have "0 < b / a" by (simp add: divide_neg_neg)
    then have "0 < arctan (b / a)" by (simp only: zero_less_arctan_iff)
    moreover from 3 have "arctan2 b a = arctan (b / a) - pi" by (simp add: arctan2_def)
    ultimately show ?thesis using u p by linarith
  next
    case 4
    then have "arctan2 b a = pi / 2" by (simp add: arctan2_def)
    with p show ?thesis by linarith
  next
    case 5
    then have "arctan2 b a = - (pi / 2)" by (simp add: arctan2_def)
    with p show ?thesis by linarith
  next
    case 6
    then have "arctan2 b a = 0" by (simp add: arctan2_def)
    with p show ?thesis by linarith
  qed
qed

lemma spec_angle_bounds: "- pi < spec_angle p \<and> spec_angle p \<le> pi"
  using arctan2_bounds [of "pos_y p" "pos_x p"] by (simp add: spec_angle_def)

lemma degrees_abs_bound:
  assumes "- pi < a" "a \<le> pi" "- pi < b" "b \<le> pi"
  shows "\<bar>degrees (a - b)\<bar> < 360"
proof -
  have p: "0 < pi" by simp
  from assms have "\<bar>a - b\<bar> < 2 * pi" by linarith
  then have "\<bar>a - b\<bar> * 180 < 2 * pi * 180" by simp
  then have "\<bar>a - b\<bar> * 180 / pi < 360" using p by (simp add: pos_divide_less_eq)
  moreover have "\<bar>degrees r\<bar> = \<bar>r\<bar> * 180 / pi" for r
    by (simp add: degrees_def)
  ultimately show ?thesis by simp
qed

lemma path_direction_error_eq:
  "path_direction_error (calculate_accuracy_metrics sid t f) =
     (if \<bar>degrees (spec_angle t - spec_angle f)\<bar> > 180
      then 360 - \<bar>degrees (spec_angle t - spec_angle f)\<bar>
      else \<bar>degrees (spec_angle t - spec_angle f)\<bar>)"
  by (simp add: calculate_accuracy_metrics_def Let_def spec_angle_def)

text \<open>
  Claim C4. The direction error lies between 0 and 180 degrees. It is the absolute value
  of the difference of the two angles in degrees, replaced by 360 minus that value
  when it exceeds 180, where the angle of a point is \<^verbatim>\<open>atan2(y, x)\<close> and the angle
  of the button is 0.
\<close>

theorem direction_error_range:
  "0 \<le> path_direction_error (calculate_accuracy_metrics sid t f)
   \<and> path_direction_error (calculate_accuracy_metrics sid t f) \<le> 180
   \<and> path_direction_error (calculate_accuracy_metrics sid t f) =
       (if \<bar>degrees (spec_angle t - spec_angle f)\<bar> > 180
        then 360 - \<bar>degrees (spec_angle t - spec_angle f)\<bar>
        else \<bar>degrees (spec_angle t - spec_angle f)\<bar>)
   \<and> spec_angle \<lparr>pos_x = 0, pos_y = 0\<rparr> = 0"
proof -
  have "\<bar>degrees (spec_angle t - spec_angle f)\<bar> < 360"
    using spec_angle_bounds [of t] spec_angle_bounds [of f] by (intro degrees_abs_bound) simp_all
  then show ?thesis
    by (simp add: path_direction_error_eq spec_angle_def)
qed

theorem direction_error_range_witness:
  "path_direction_error
     (calculate_accuracy_metrics 1 \<lparr>pos_x = - 1, pos_y = 0, confidence = 7 / 10\<rparr>
        \<lparr>pos_x = 0, pos_y = - 1, color = ''red''\<rparr>) = 90
   \<and> \<bar>degrees (spec_angle \<lparr>pos_x = - 1, pos_y = 0, confidence = 7 / 10\<rparr>
                 - spec_angle \<lparr>pos_x = 0, pos_y = - 1, color = ''red''\<rparr>)\<bar> = 270"
  using direction_error_range [of 1 "\<lparr>pos_x = - 1, pos_y = 0, confidence = 7 / 10\<rparr>"
      "\<lparr>pos_x = 0, pos_y = - 1, color = ''red''\<rparr>"]
  by (simp add: spec_angle_def arctan2_def degrees_def)

lemma categorize_find:
  "categorize dflt e tbl =
     (case find (\<lambda>(c, thr). le_threshold e thr) tbl of None \<Rightarrow> dflt | Some (c, thr) \<Rightarrow> c)"
  by (induction tbl) auto

text \<open>
  Claim C5. The distance error is never negative, and its category is the name of the
  first entry of the distance table whose threshold is at least the error: on_target up
  to 0.20, close up to 0.50, moderate up to 1.00, large beyond. Such an entry always
  exists, the last threshold being infinite. The direction category is found the same
  way in the direction table: on_line up to 3, slight up to 8, moderate up to 15, large
  beyond.
\<close>

theorem categories_first_match:
  "(let m = calculate_accuracy_metrics sid t f;
        d = target_distance_error m;
        a = path_direction_error m
    in 0 \<le> d
       \<and> distance_category m =
           (if d \<le> 20 / 100 then ''on_target'' else if d \<le> 50 / 100 then ''close''
            else if d \<le> 1 then ''moderate'' else ''large'')
       \<and> (\<exists>thr. find (\<lambda>(c, thr). le_threshold d thr) DISTANCE_THRESHOLDS
                   = Some (distance_category m, thr))
       \<and> direction_category m =
           (if a \<le> 3 then ''on_line'' else if a \<le> 8 then ''slight''
            else if a \<le> 15 then ''moderate'' else ''large'')
       \<and> (\<exists>thr. find (\<lambda>(c, thr). le_threshold a thr) DIRECTION_THRESHOLDS
                   = Some (direction_category m, thr)))"
  by (simp add: calculate_accuracy_metrics_def Let_def DISTANCE_THRESHOLDS_def
        DIRECTION_THRESHOLDS_def)

theorem categories_first_match_witness:
  "distance_category (calculate_accuracy_metrics 1 \<lparr>pos_x = 0, pos_y = 0, confidence = 3 / 10\<rparr>
        \<lparr>pos_x = 15 / 100, pos_y = 0, color = ''red''\<rparr>) = ''on_target''
   \<and> direction_category (calculate_accuracy_metrics 1 \<lparr>pos_x = 0, pos_y = 0, confidence = 3 / 10\<rparr>
        \<lparr>pos_x = 15 / 100, pos_y = 0, color = ''red''\<rparr>) = ''on_line''
   \<and> distance_category (calculate_accuracy_metrics 2 \<lparr>pos_x = 0, pos_y = 0, confidence = 3 / 10\<rparr>
        \<lparr>pos_x = 12 / 10, pos_y = 0, color = ''red''\<rparr>) = ''large''"
  using categories_first_match [of 1 "\<lparr>pos_x = 0, pos_y = 0, confidence = 3 / 10\<rparr>"
        "\<lparr>pos_x = 15 / 100, pos_y = 0, color = ''red''\<rparr>"]
     categories_first_match [of 2 "\<lparr>pos_x = 0, pos_y = 0, confidence = 3 / 10\<rparr>"
        "\<lparr>pos_x = 12 / 10, pos_y = 0, color = ''red''\<rparr>"]
  by (simp add: calculate_accuracy_metrics_def Let_def arctan2_def degrees_def)

subsection \<open>The per-shot pipeline\<close>






end
